theory Spec2Isabelle
  imports Main "HOL-Library.Word" "HOL-Library.Multiset"
begin

section \<open>Go values, errors and time\<close>

text \<open>
  A JSON document as \<^verbatim>\<open>encoding/json\<close> produces it from a Go value: objects keep their
  members as a list of key/value pairs in the order the encoder emits them (struct fields in
  declaration order).
\<close>

datatype json =
    JNull
  | JBool bool
  | JNum int
  | JStr string
  | JArr "json list"
  | JObj "(string \<times> json) list"

text \<open>
  A value stored in a \<^verbatim>\<open>map[string]any\<close> that is handed to \<^verbatim>\<open>json.Marshal\<close>, by what
  the encoder makes of it: the JSON document it is encoded as, or a value the encoder
  refuses (a channel, a function, a NaN, ...).
\<close>

datatype detail = Marshals json | Unsupported

text \<open>
  \<^verbatim>\<open>errors.gatewayError\<close>: the only implementation of the \<^verbatim>\<open>GatewayError\<close> interface.
  \<open>details = None\<close> is the nil map; the entries of a map are listed in increasing key
  order, the order in which the encoder emits them.
\<close>

record gatewayError =
  statusCode :: int
  errorCode :: string
  message :: string
  details :: "(string \<times> detail) list option"

text \<open>
  A Go \<^verbatim>\<open>error\<close> value is either a \<^verbatim>\<open>GatewayError\<close> or any other error, of which only
  the text returned by \<^verbatim>\<open>Error()\<close> is kept. The nil error is \<open>None\<close> of
  \<open>go_error option\<close>.
\<close>

datatype go_error = GatewayErr gatewayError | PlainErr string

definition NewError :: "int \<Rightarrow> string \<Rightarrow> string \<Rightarrow> gatewayError" where
  "NewError sc ec msg = \<lparr>statusCode = sc, errorCode = ec, message = msg, details = None\<rparr>"

definition NewUnauthorizedError :: "string \<Rightarrow> gatewayError" where
  "NewUnauthorizedError msg = NewError 401 ''UNAUTHORIZED'' msg"

definition NewNotFoundError :: "string \<Rightarrow> gatewayError" where
  "NewNotFoundError msg = NewError 404 ''NOT_FOUND'' msg"

definition NewInternalServerError :: "string \<Rightarrow> gatewayError" where
  "NewInternalServerError msg = NewError 500 ''INTERNAL_SERVER_ERROR'' msg"

fun Error_text :: "go_error \<Rightarrow> string" where
  "Error_text (GatewayErr e) = message e"
| "Error_text (PlainErr s) = s"

text \<open>\<^verbatim>\<open>strings.HasPrefix\<close> and \<^verbatim>\<open>strings.TrimPrefix\<close>.\<close>

definition HasPrefix :: "string \<Rightarrow> string \<Rightarrow> bool" where
  "HasPrefix s p \<longleftrightarrow> take (length p) s = p"

definition TrimPrefix :: "string \<Rightarrow> string \<Rightarrow> string" where
  "TrimPrefix s p = (if take (length p) s = p then drop (length p) s else s)"

text \<open>
  \<^verbatim>\<open>time.Time\<close> without a monotonic reading (what \<^verbatim>\<open>time.Unix\<close> and \<^verbatim>\<open>time.Parse\<close>
  return): \<open>sec\<close> is the int64 count of seconds since January 1, year 1 (read signed),
  \<open>nsec\<close> the nanoseconds within the second.
\<close>

record Time =
  sec :: "64 word"
  nsec :: nat

definition unixToInternal :: "64 word" where
  "unixToInternal = 62135596800"

definition time_Unix :: "64 word \<Rightarrow> Time" where
  "time_Unix s = \<lparr>sec = s + unixToInternal, nsec = 0\<rparr>"

text \<open>
  The instant a \<open>Time\<close> denotes, read as a mathematical integer: its whole seconds since
  the Unix epoch (the nanoseconds \<open>nsec\<close> come on top).
\<close>

definition unixSeconds :: "Time \<Rightarrow> int" where
  "unixSeconds t = sint (sec t) - 62135596800"

definition IsZero :: "Time \<Rightarrow> bool" where
  "IsZero t \<longleftrightarrow> sec t = 0 \<and> nsec t = 0"

definition Before :: "Time \<Rightarrow> Time \<Rightarrow> bool" where
  "Before t u \<longleftrightarrow> sec t <s sec u \<or> (sec t = sec u \<and> nsec t < nsec u)"

text \<open>
  A value of Go's \<^verbatim>\<open>any\<close> as it occurs in \<^verbatim>\<open>jwt.MapClaims\<close>. The type \<open>'f\<close> stands for
  float64; \<open>VOther\<close> carries the name of any other dynamic type.
\<close>

datatype 'f go_value =
    VString string
  | VFloat64 'f
  | VInt64 "64 word"
  | VInt "64 word"
  | VBool bool
  | VOther string

type_synonym 'f MapClaims = "string \<rightharpoonup> 'f go_value"

fun typeName :: "'f go_value \<Rightarrow> string" where
  "typeName (VString _) = ''string''"
| "typeName (VFloat64 _) = ''float64''"
| "typeName (VInt64 _) = ''int64''"
| "typeName (VInt _) = ''int''"
| "typeName (VBool _) = ''bool''"
| "typeName (VOther n) = n"

text \<open>
  The request context: the entry under \<^verbatim>\<open>ClaimsContextKey\<close>, when it holds a
  \<^verbatim>\<open>jwt.MapClaims\<close>.
\<close>

record 'f Context =
  claimsValue :: "'f MapClaims option"

definition GetClaimsFromContext :: "'f Context \<Rightarrow> 'f MapClaims option" where
  "GetClaimsFromContext ctx = claimsValue ctx"

text \<open>The parts of \<^verbatim>\<open>http.Request\<close> the gateway reads.\<close>

record Request =
  reqMethod :: string
  urlPath :: string
  reqHeader :: "string \<rightharpoonup> string"

section \<open>Session repository (repository/session\_repository.go)\<close>

text \<open>
  The key-value store behind \<^verbatim>\<open>redisclient.Client\<close> is a state of type \<open>'s\<close>; the
  driver's \<^verbatim>\<open>Set\<close> is a parameter that may fail and may change the store.
  Durations are int64 nanoseconds, read signed.
\<close>

type_synonym 's driverSet = "string \<Rightarrow> string \<Rightarrow> 64 word \<Rightarrow> 's \<Rightarrow> string option \<times> 's"

definition Client_Set :: "'s driverSet \<Rightarrow> string \<Rightarrow> string \<Rightarrow> 64 word \<Rightarrow> 's \<Rightarrow> go_error option \<times> 's" where
  "Client_Set drv key val expiration s =
     (case drv key val expiration s of
        (Some e, s') \<Rightarrow> (Some (PlainErr (''failed to set key '' @ key @ '': '' @ e)), s')
      | (None, s') \<Rightarrow> (None, s'))"

record RedisSessionRepository =
  keyPrefix :: string

definition NewRedisSessionRepository :: "string \<Rightarrow> RedisSessionRepository" where
  "NewRedisSessionRepository prefix =
     \<lparr>keyPrefix = (if prefix = [] then ''revoke:'' else prefix)\<rparr>"

definition makeKey :: "RedisSessionRepository \<Rightarrow> string \<Rightarrow> string" where
  "makeKey r userID = keyPrefix r @ userID"

text \<open>\<open>fmt\<close> is \<^verbatim>\<open>revokedTime.Format(time.RFC3339)\<close>.\<close>

definition SetRevokedTime ::
  "(Time \<Rightarrow> string) \<Rightarrow> 's driverSet \<Rightarrow> RedisSessionRepository \<Rightarrow> string \<Rightarrow> Time \<Rightarrow> 64 word
     \<Rightarrow> 's \<Rightarrow> go_error option \<times> 's" where
  "SetRevokedTime fmt drv r userID revokedTime expiration s =
     (if expiration \<le>s 0 then (None, s)
      else
        (case Client_Set drv (makeKey r userID) (fmt revokedTime) expiration s of
           (Some e, s') \<Rightarrow>
             (Some (PlainErr (''failed to set revoked time for user '' @ userID @ '': ''
                              @ Error_text e)), s')
         | (None, s') \<Rightarrow> (None, s')))"

section \<open>Revocation middleware (middleware/auth/revoke.go)\<close>

text \<open>
  \<open>repository\<close> is \<^verbatim>\<open>SessionRepository.GetRevokedTime\<close> of the configured repository.
  The logger has no influence on the result and is left out.
\<close>

record RevokeMiddleware =
  repository :: "string \<Rightarrow> go_error + Time"
  userIDClaim :: string
  issuedAtClaim :: string
  failOpen :: bool

record RevokeConfig =
  cfgRepository :: "string \<Rightarrow> go_error + Time"
  cfgUserIDClaim :: string
  cfgIssuedAtClaim :: string
  cfgFailOpen :: bool

definition NewRevokeMiddleware :: "RevokeConfig \<Rightarrow> RevokeMiddleware" where
  "NewRevokeMiddleware config =
     \<lparr>repository = cfgRepository config,
      userIDClaim = (if cfgUserIDClaim config = [] then ''sub'' else cfgUserIDClaim config),
      issuedAtClaim = (if cfgIssuedAtClaim config = [] then ''iat'' else cfgIssuedAtClaim config),
      failOpen = cfgFailOpen config\<rparr>"

definition getUserID :: "RevokeMiddleware \<Rightarrow> 'f MapClaims \<Rightarrow> go_error + string" where
  "getUserID m claims =
     (case claims (userIDClaim m) of
        None \<Rightarrow> Inl (PlainErr (''claim '' @ userIDClaim m @ '' not found''))
      | Some (VString userID) \<Rightarrow>
          (if userID = [] then Inl (PlainErr (''claim '' @ userIDClaim m @ '' is empty''))
           else Inr userID)
      | Some _ \<Rightarrow> Inl (PlainErr (''claim '' @ userIDClaim m @ '' is not a string'')))"

text \<open>\<open>toInt64\<close> is Go's conversion \<^verbatim>\<open>int64(v)\<close> of a float64.\<close>

definition getIssuedAt :: "('f \<Rightarrow> 64 word) \<Rightarrow> RevokeMiddleware \<Rightarrow> 'f MapClaims \<Rightarrow> go_error + Time" where
  "getIssuedAt toInt64 m claims =
     (case claims (issuedAtClaim m) of
        None \<Rightarrow> Inl (PlainErr (''claim '' @ issuedAtClaim m @ '' not found''))
      | Some (VFloat64 v) \<Rightarrow> Inr (time_Unix (toInt64 v))
      | Some (VInt64 v) \<Rightarrow> Inr (time_Unix v)
      | Some (VInt v) \<Rightarrow> Inr (time_Unix v)
      | Some iatRaw \<Rightarrow>
          Inl (PlainErr (''claim '' @ issuedAtClaim m @ '' has invalid type: '' @ typeName iatRaw)))"

definition Revoke_Process ::
  "('f \<Rightarrow> 64 word) \<Rightarrow> RevokeMiddleware \<Rightarrow> 'f Context \<Rightarrow> Request \<Rightarrow> 'f Context \<times> go_error option" where
  "Revoke_Process toInt64 m ctx req =
     (case GetClaimsFromContext ctx of
        None \<Rightarrow> (ctx, None)
      | Some claims \<Rightarrow>
          (case getUserID m claims of
             Inl err \<Rightarrow> (ctx, Some (GatewayErr (NewError 401 ''Unauthorized'' ''invalid token claims'')))
           | Inr userID \<Rightarrow>
               (case getIssuedAt toInt64 m claims of
                  Inl err \<Rightarrow> (ctx, Some (GatewayErr (NewError 401 ''Unauthorized'' ''invalid token claims'')))
                | Inr issuedAt \<Rightarrow>
                    (case repository m userID of
                       Inl err \<Rightarrow>
                         (if failOpen m then (ctx, None)
                          else (ctx, Some (GatewayErr (NewError 503 ''ServiceUnavailable''
                                             ''session service unavailable''))))
                     | Inr revokedTime \<Rightarrow>
                         (if IsZero revokedTime then (ctx, None)
                          else if Before issuedAt revokedTime then
                            (ctx, Some (GatewayErr (NewError 401 ''Unauthorized''
                                               ''token has been revoked'')))
                          else (ctx, None))))))"

section \<open>Routes (routing/route.go)\<close>

record MiddlewareConfig =
  mwType :: string
  mwConfig :: "(string \<times> json) list"

record Backend =
  backendURL :: string
  backendTimeout :: "64 word"

record Route =
  Path :: string
  Methods :: "string list"
  routeBackend :: Backend
  Middleware :: "MiddlewareConfig list"
  Priority :: int

text \<open>\<^verbatim>\<open>transport.Backend\<close>, as the transporter receives it.\<close>

record TransportBackend =
  tbURL :: string
  tbTimeout :: "64 word"
  tbHeaders :: "string \<rightharpoonup> string"

record MatchResult =
  matchRoute :: Route
  Params :: "string \<rightharpoonup> string"

definition HasMethod :: "Route \<Rightarrow> string \<Rightarrow> bool" where
  "HasMethod r method = (if Methods r = [] then True else method \<in> set (Methods r))"

section \<open>Error responses (errors package)\<close>

definition WrapError :: "go_error \<Rightarrow> int \<Rightarrow> string \<Rightarrow> gatewayError" where
  "WrapError err sc ec = (case err of GatewayErr ge \<Rightarrow> ge | PlainErr s \<Rightarrow> NewError sc ec s)"

section \<open>The response writer\<close>

text \<open>
  \<^verbatim>\<open>http.ResponseWriter\<close> as the client sees it: the status once written, the headers sent
  with it, and the chunks written to the body. A chunk is either the encoding of a JSON
  document or raw bytes.
\<close>

datatype chunk = Encoded json | Raw string

text \<open>
  The string value that \<^verbatim>\<open>encoding/json\<close> writes for a Go string: the encoder walks the
  bytes with \<^verbatim>\<open>utf8.DecodeRuneInString\<close>, keeps every well-formed UTF-8 sequence and puts
  U+FFFD in place of each byte that starts none. (Escapes such as \<^verbatim>\<open>\u003c\<close> do not change
  the value.) \<open>runeSize\<close> is the length of the well-formed sequence at the head of the
  string, 0 when there is none.
\<close>

definition inRange :: "char \<Rightarrow> nat \<Rightarrow> nat \<Rightarrow> bool" where
  "inRange c lo hi \<longleftrightarrow> lo \<le> of_char c \<and> (of_char c :: nat) \<le> hi"

fun runeSize :: "string \<Rightarrow> nat" where
  "runeSize [] = 0"
| "runeSize (b0 # bs) =
     (let x = (of_char b0 :: nat) in
      if x < 0x80 then 1
      else if 0xC2 \<le> x \<and> x \<le> 0xDF then
        (case bs of
           b1 # _ \<Rightarrow> (if inRange b1 0x80 0xBF then 2 else 0)
         | _ \<Rightarrow> 0)
      else if 0xE0 \<le> x \<and> x \<le> 0xEF then
        (case bs of
           b1 # b2 # _ \<Rightarrow>
             (if inRange b1 (if x = 0xE0 then 0xA0 else 0x80) (if x = 0xED then 0x9F else 0xBF)
                 \<and> inRange b2 0x80 0xBF
              then 3 else 0)
         | _ \<Rightarrow> 0)
      else if 0xF0 \<le> x \<and> x \<le> 0xF4 then
        (case bs of
           b1 # b2 # b3 # _ \<Rightarrow>
             (if inRange b1 (if x = 0xF0 then 0x90 else 0x80) (if x = 0xF4 then 0x8F else 0xBF)
                 \<and> inRange b2 0x80 0xBF \<and> inRange b3 0x80 0xBF
              then 4 else 0)
         | _ \<Rightarrow> 0)
      else 0)"

function jsonString :: "string \<Rightarrow> string" where
  "jsonString [] = []"
| "jsonString (b # bs) =
     (if runeSize (b # bs) = 0 then [CHR 0xEF, CHR 0xBF, CHR 0xBD] @ jsonString bs
      else take (runeSize (b # bs)) (b # bs) @ jsonString (drop (runeSize (b # bs) - 1) bs))"
  by pat_completeness auto
termination
  by (relation "measure length") auto

section \<open>Error responses (errors package, continued)\<close>

text \<open>
  \<^verbatim>\<open>ToJSON\<close> marshals the \<^verbatim>\<open>ErrorResponse\<close> struct: one member \<^verbatim>\<open>error\<close> holding
  \<^verbatim>\<open>code\<close>, \<^verbatim>\<open>message\<close> and, unless the map is nil or empty (\<^verbatim>\<open>omitempty\<close>),
  \<^verbatim>\<open>details\<close>. When the encoder refuses a value of the details map, \<^verbatim>\<open>json.Marshal\<close>
  returns an error, which \<^verbatim>\<open>ToJSON\<close> drops: the result is then the nil slice, no bytes.
\<close>

fun marshalDetails :: "(string \<times> detail) list \<Rightarrow> (string \<times> json) list option" where
  "marshalDetails [] = Some []"
| "marshalDetails ((k, Marshals j) # rest) =
     (case marshalDetails rest of
        None \<Rightarrow> None
      | Some ms \<Rightarrow> Some ((jsonString k, j) # ms))"
| "marshalDetails ((k, Unsupported) # rest) = None"

definition ToJSON :: "gatewayError \<Rightarrow> chunk" where
  "ToJSON err =
     (case (case details err of
              None \<Rightarrow> Some []
            | Some d \<Rightarrow>
                (if d = [] then Some []
                 else (case marshalDetails d of
                         None \<Rightarrow> None
                       | Some ms \<Rightarrow> Some [(''details'', JObj ms)]))) of
        None \<Rightarrow> Raw []
      | Some detailsMember \<Rightarrow>
          Encoded (JObj [(''error'',
                          JObj ([(''code'', JStr (jsonString (errorCode err))),
                                 (''message'', JStr (jsonString (message err)))]
                                @ detailsMember))]))"

record ResponseWriter =
  wroteStatus :: "int option"
  respHeader :: "string \<rightharpoonup> string"
  respBody :: "chunk list"

definition newResponseWriter :: ResponseWriter where
  "newResponseWriter = \<lparr>wroteStatus = None, respHeader = Map.empty, respBody = []\<rparr>"

definition Header_Set :: "string \<Rightarrow> string \<Rightarrow> ResponseWriter \<Rightarrow> ResponseWriter" where
  "Header_Set k v w =
     (if wroteStatus w = None then w\<lparr>respHeader := (respHeader w)(k \<mapsto> v)\<rparr> else w)"

definition WriteHeader :: "int \<Rightarrow> ResponseWriter \<Rightarrow> ResponseWriter" where
  "WriteHeader code w = (if wroteStatus w = None then w\<lparr>wroteStatus := Some code\<rparr> else w)"

definition Write :: "chunk \<Rightarrow> ResponseWriter \<Rightarrow> ResponseWriter" where
  "Write b w = (let w' = WriteHeader 200 w in w'\<lparr>respBody := respBody w' @ [b]\<rparr>)"

section \<open>Middleware chain (middleware/middleware.go)\<close>

text \<open>
  A stage maps the context and the request to a context and an error. Whatever else a stage
  touches (session store, log) is the external state \<open>'e\<close>, threaded through.
\<close>

type_synonym ('f, 'e) Middleware =
  "'f Context \<Rightarrow> Request \<Rightarrow> 'e \<Rightarrow> ('f Context \<times> go_error option) \<times> 'e"

fun Execute ::
  "('f, 'e) Middleware list \<Rightarrow> 'f Context \<Rightarrow> Request \<Rightarrow> 'e \<Rightarrow> ('f Context \<times> go_error option) \<times> 'e"
where
  "Execute [] ctx req e = ((ctx, None), e)"
| "Execute (mw # mws) ctx req e =
     (case mw ctx req e of
        ((ctx', Some err), e') \<Rightarrow> ((ctx', Some err), e')
      | ((ctx', None), e') \<Rightarrow> Execute mws ctx' req e')"

section \<open>The gateway handler (handler package)\<close>

text \<open>
  The gateway holds its router through \<^verbatim>\<open>Router.Match\<close>, its transporter through
  \<^verbatim>\<open>Transport\<close> (which writes to the response writer and talks to the backend, part of the
  external state), and its middleware factory (possibly nil) through \<^verbatim>\<open>Create\<close>.
  Log output is left out.
\<close>

record ('f, 'e) Gateway =
  router_Match :: "string \<Rightarrow> string \<Rightarrow> go_error + MatchResult"
  transporter ::
    "'f Context \<Rightarrow> Request \<Rightarrow> TransportBackend \<Rightarrow> ResponseWriter \<times> 'e
       \<Rightarrow> go_error option \<times> ResponseWriter \<times> 'e"
  middlewareFactory :: "(MiddlewareConfig \<Rightarrow> go_error + ('f, 'e) Middleware) option"

fun createAll ::
  "(MiddlewareConfig \<Rightarrow> go_error + ('f, 'e) Middleware) \<Rightarrow> MiddlewareConfig list
     \<Rightarrow> go_error + ('f, 'e) Middleware list"
where
  "createAll create [] = Inr []"
| "createAll create (cfg # cfgs) =
     (case create cfg of
        Inl err \<Rightarrow>
          Inl (PlainErr (''failed to create middleware type='' @ mwType cfg @ '': ''
                         @ Error_text err))
      | Inr m \<Rightarrow>
          (case createAll create cfgs of
             Inl err \<Rightarrow> Inl err
           | Inr ms \<Rightarrow> Inr (m # ms)))"

definition buildMiddlewareChain ::
  "('f, 'e) Gateway \<Rightarrow> MiddlewareConfig list \<Rightarrow> go_error + ('f, 'e) Middleware list" where
  "buildMiddlewareChain g configs =
     (case middlewareFactory g of
        None \<Rightarrow> Inr []
      | Some create \<Rightarrow> createAll create configs)"

definition convertToTransportBackend :: "Backend \<Rightarrow> TransportBackend" where
  "convertToTransportBackend b =
     \<lparr>tbURL = backendURL b, tbTimeout = backendTimeout b, tbHeaders = Map.empty\<rparr>"

definition handleError :: "ResponseWriter \<Rightarrow> Request \<Rightarrow> go_error \<Rightarrow> ResponseWriter" where
  "handleError w r err =
     (let gatewayErr = (case err of
                          GatewayErr ge \<Rightarrow> ge
                        | PlainErr s \<Rightarrow> NewInternalServerError s)
      in Write (ToJSON gatewayErr)
           (WriteHeader (statusCode gatewayErr)
              (Header_Set ''Content-Type'' ''application/json'' w)))"

text \<open>\<open>rctx\<close> is \<^verbatim>\<open>r.Context()\<close> of the incoming request.\<close>

definition ServeHTTP ::
  "('f, 'e) Gateway \<Rightarrow> ResponseWriter \<Rightarrow> Request \<Rightarrow> 'f Context \<Rightarrow> 'e \<Rightarrow> ResponseWriter \<times> 'e" where
  "ServeHTTP g w r rctx e =
     (if reqMethod r = ''OPTIONS'' then (WriteHeader 204 w, e)
      else
        (case router_Match g (reqMethod r) (urlPath r) of
           Inl err \<Rightarrow> (handleError w r (GatewayErr (WrapError err 404 ''ROUTING_ERROR'')), e)
         | Inr matchResult \<Rightarrow>
             (let staged =
                (if Middleware (matchRoute matchResult) \<noteq> [] then
                   (case buildMiddlewareChain g (Middleware (matchRoute matchResult)) of
                      Inl err \<Rightarrow>
                        Inl (handleError w r
                               (GatewayErr (WrapError err 500 ''MIDDLEWARE_SETUP_ERROR'')), e)
                    | Inr chain \<Rightarrow>
                        (case Execute chain rctx r e of
                           ((ctx, Some err), e') \<Rightarrow>
                             Inl (handleError w r
                                    (GatewayErr (WrapError err 401 ''MIDDLEWARE_ERROR'')), e')
                         | ((ctx, None), e') \<Rightarrow> Inr (ctx, e')))
                 else Inr (rctx, e))
              in (case staged of
                    Inl done \<Rightarrow> done
                  | Inr (ctx, e') \<Rightarrow>
                      (case transporter g ctx r
                              (convertToTransportBackend (routeBackend (matchRoute matchResult)))
                              (w, e') of
                         (Some err, w', e'') \<Rightarrow>
                           (handleError w' r
                              (GatewayErr (WrapError err 502 ''TRANSPORT_ERROR'')), e'')
                       | (None, w', e'') \<Rightarrow> (w', e''))))))"

section \<open>Authorization middleware of the REST service (rest/internal/middleware/authz.go)\<close>

text \<open>
  The error types of \<^verbatim>\<open>myerrors\<close>, each with its user message (and, where the type has
  them, its further fields). \<open>OtherError\<close> is any error of another type.
\<close>

datatype myerror =
    InvalidArgumentError string string string
  | UnauthorizedError string
  | ForbiddenError string
  | NotFoundError string
  | ConflictError string
  | UnprocessableEntityError string
  | SystemError string string
  | OtherError string

definition NewForbidden :: "string \<Rightarrow> myerror" where
  "NewForbidden userMessage = ForbiddenError userMessage"

definition NewUnauthorized :: "string \<Rightarrow> myerror" where
  "NewUnauthorized userMessage = UnauthorizedError userMessage"

fun ToHTTPStatus :: "myerror \<Rightarrow> int" where
  "ToHTTPStatus (InvalidArgumentError _ _ _) = 400"
| "ToHTTPStatus (UnauthorizedError _) = 401"
| "ToHTTPStatus (ForbiddenError _) = 403"
| "ToHTTPStatus (NotFoundError _) = 404"
| "ToHTTPStatus (ConflictError _) = 409"
| "ToHTTPStatus (UnprocessableEntityError _) = 422"
| "ToHTTPStatus (SystemError _ _) = 500"
| "ToHTTPStatus (OtherError _) = 500"

fun GetUserMessage :: "myerror \<Rightarrow> string" where
  "GetUserMessage (InvalidArgumentError m _ _) = m"
| "GetUserMessage (UnauthorizedError m) = m"
| "GetUserMessage (ForbiddenError m) = m"
| "GetUserMessage (NotFoundError m) = m"
| "GetUserMessage (ConflictError m) = m"
| "GetUserMessage (UnprocessableEntityError m) = m"
| "GetUserMessage (SystemError m _) = m"
| "GetUserMessage (OtherError _) = ''An unexpected error occurred''"

text \<open>
  The three message literals of \<^verbatim>\<open>authz.go\<close>, as their UTF-8 bytes. In the source they are
  Japanese text: "you are not permitted to perform this operation (role mapping undefined)",
  "authentication information not found" and "you are not permitted to perform this
  operation".
\<close>

definition msg_forbidden_no_mapping :: string where
  "msg_forbidden_no_mapping =
    [CHR 0xE3, CHR 0x81, CHR 0x93, CHR 0xE3, CHR 0x81, CHR 0xAE, CHR 0xE6, CHR 0x93, CHR 0x8D,
     CHR 0xE4, CHR 0xBD, CHR 0x9C, CHR 0xE3, CHR 0x82, CHR 0x92, CHR 0xE5, CHR 0xAE, CHR 0x9F,
     CHR 0xE8, CHR 0xA1, CHR 0x8C, CHR 0xE3, CHR 0x81, CHR 0x99, CHR 0xE3, CHR 0x82, CHR 0x8B,
     CHR 0xE6, CHR 0xA8, CHR 0xA9, CHR 0xE9, CHR 0x99, CHR 0x90, CHR 0xE3, CHR 0x81, CHR 0x8C,
     CHR 0xE3, CHR 0x81, CHR 0x82, CHR 0xE3, CHR 0x82, CHR 0x8A, CHR 0xE3, CHR 0x81, CHR 0xBE,
     CHR 0xE3, CHR 0x81, CHR 0x9B, CHR 0xE3, CHR 0x82, CHR 0x93, CHR 0xEF, CHR 0xBC, CHR 0x88,
     CHR 0xE3, CHR 0x83, CHR 0xAD, CHR 0xE3, CHR 0x83, CHR 0xBC, CHR 0xE3, CHR 0x83, CHR 0xAB,
     CHR 0xE3, CHR 0x83, CHR 0x9E, CHR 0xE3, CHR 0x83, CHR 0x83, CHR 0xE3, CHR 0x83, CHR 0x94,
     CHR 0xE3, CHR 0x83, CHR 0xB3, CHR 0xE3, CHR 0x82, CHR 0xB0, CHR 0xE6, CHR 0x9C, CHR 0xAA,
     CHR 0xE5, CHR 0xAE, CHR 0x9A, CHR 0xE7, CHR 0xBE, CHR 0xA9, CHR 0xEF, CHR 0xBC, CHR 0x89]"

definition msg_unauthorized_no_claims :: string where
  "msg_unauthorized_no_claims =
    [CHR 0xE8, CHR 0xAA, CHR 0x8D, CHR 0xE8, CHR 0xA8, CHR 0xBC, CHR 0xE6, CHR 0x83, CHR 0x85,
     CHR 0xE5, CHR 0xA0, CHR 0xB1, CHR 0xE3, CHR 0x81, CHR 0x8C, CHR 0xE8, CHR 0xA6, CHR 0x8B,
     CHR 0xE3, CHR 0x81, CHR 0xA4, CHR 0xE3, CHR 0x81, CHR 0x8B, CHR 0xE3, CHR 0x82, CHR 0x8A,
     CHR 0xE3, CHR 0x81, CHR 0xBE, CHR 0xE3, CHR 0x81, CHR 0x9B, CHR 0xE3, CHR 0x82, CHR 0x93]"

definition msg_forbidden_role :: string where
  "msg_forbidden_role =
    [CHR 0xE3, CHR 0x81, CHR 0x93, CHR 0xE3, CHR 0x81, CHR 0xAE, CHR 0xE6, CHR 0x93, CHR 0x8D,
     CHR 0xE4, CHR 0xBD, CHR 0x9C, CHR 0xE3, CHR 0x82, CHR 0x92, CHR 0xE5, CHR 0xAE, CHR 0x9F,
     CHR 0xE8, CHR 0xA1, CHR 0x8C, CHR 0xE3, CHR 0x81, CHR 0x99, CHR 0xE3, CHR 0x82, CHR 0x8B,
     CHR 0xE6, CHR 0xA8, CHR 0xA9, CHR 0xE9, CHR 0x99, CHR 0x90, CHR 0xE3, CHR 0x81, CHR 0x8C,
     CHR 0xE3, CHR 0x81, CHR 0x82, CHR 0xE3, CHR 0x82, CHR 0x8A, CHR 0xE3, CHR 0x81, CHR 0xBE,
     CHR 0xE3, CHR 0x81, CHR 0x9B, CHR 0xE3, CHR 0x82, CHR 0x93]"

record Claims =
  UserID :: string
  Role :: string

definition RoleAdmin :: string where
  "RoleAdmin = ''admin''"

definition RoleUser :: string where
  "RoleUser = ''user''"

definition HasAnyRole :: "Claims \<Rightarrow> string list \<Rightarrow> bool" where
  "HasAnyRole c roles \<longleftrightarrow> Role c \<in> set roles"

definition authorizeRoleMap :: "string \<rightharpoonup> string list" where
  "authorizeRoleMap = [''v1GetHello'' \<mapsto> [RoleUser, RoleAdmin]]"

text \<open>
  \<^verbatim>\<open>middleware.Request\<close> of ogen: the operation id and the context, of which only the claims
  entry (\<^verbatim>\<open>auth.FromContext\<close>) is read.
\<close>

record RestRequest =
  OperationID :: string
  ctxClaims :: "Claims option"

definition FromContext :: "RestRequest \<Rightarrow> Claims option" where
  "FromContext req = ctxClaims req"

text \<open>
  \<open>next\<close> is the rest of the handler chain; its effects are changes of the state \<open>'w\<close>.
\<close>

definition Handle ::
  "RestRequest \<Rightarrow> (RestRequest \<Rightarrow> 'w \<Rightarrow> (myerror + 'resp) \<times> 'w) \<Rightarrow> 'w \<Rightarrow> (myerror + 'resp) \<times> 'w" where
  "Handle req next w =
     (case authorizeRoleMap (OperationID req) of
        None \<Rightarrow> (Inl (NewForbidden msg_forbidden_no_mapping), w)
      | Some allowedRoles \<Rightarrow>
          (case FromContext req of
             None \<Rightarrow> (Inl (NewUnauthorized msg_unauthorized_no_claims), w)
           | Some claims \<Rightarrow>
               (if \<not> HasAnyRole claims allowedRoles then
                  (Inl (NewForbidden msg_forbidden_role), w)
                else next req w)))"

section \<open>Routing trie (routing/trie.go, routing/router.go)\<close>

datatype nodeType = staticNode | paramNode | wildcardNode

text \<open>A trie node. The Go map \<^verbatim>\<open>children\<close> is a partial function from segments to nodes.\<close>

datatype node =
  Node (nodeType: nodeType) (segment: string) (children: "string \<Rightarrow> node option")
       (route: "Route option") (paramName: string)

definition newNode :: "string \<Rightarrow> node" where
  "newNode seg =
     (if HasPrefix seg '':'' then Node paramNode seg Map.empty None (TrimPrefix seg '':'')
      else if seg = ''*'' \<or> seg = ''**'' then Node wildcardNode seg Map.empty None []
      else Node staticNode seg Map.empty None [])"

definition getChild :: "node \<Rightarrow> string \<Rightarrow> node option" where
  "getChild n seg = children n seg"

text \<open>
  \<^verbatim>\<open>findMatchingChild\<close> looks for the parameter child, and then for the wildcard child, with
  \<^verbatim>\<open>for _, child := range n.children\<close> and returns the first child of that type it meets.
  Go leaves the iteration order of a map unspecified, so when several children have the type
  any of them may be returned: the function yields the set of possible results
  (\<open>None\<close> for "not found").
\<close>

definition childrenOfType :: "node \<Rightarrow> nodeType \<Rightarrow> node set" where
  "childrenOfType n t = {c \<in> ran (children n). nodeType c = t}"

definition findMatchingChild :: "node \<Rightarrow> string \<Rightarrow> node option set" where
  "findMatchingChild n seg =
     (case getChild n seg of
        Some child \<Rightarrow> {Some child}
      | None \<Rightarrow>
          (if childrenOfType n paramNode \<noteq> {} then Some ` childrenOfType n paramNode
           else if childrenOfType n wildcardNode \<noteq> {} then Some ` childrenOfType n wildcardNode
           else {None}))"

text \<open>\<^verbatim>\<open>strings.Trim(path, "/")\<close> and \<^verbatim>\<open>strings.Split(path, "/")\<close>.\<close>

definition Trim :: "string \<Rightarrow> char \<Rightarrow> string" where
  "Trim s c = rev (dropWhile (\<lambda>x. x = c) (rev (dropWhile (\<lambda>x. x = c) s)))"

fun Split :: "string \<Rightarrow> char \<Rightarrow> string list" where
  "Split [] c = [[]]"
| "Split (x # xs) c =
     (if x = c then [] # Split xs c
      else (case Split xs c of
              [] \<Rightarrow> [[x]]
            | w # ws \<Rightarrow> (x # w) # ws))"

definition SplitPath :: "string \<Rightarrow> string list" where
  "SplitPath path = (let p = Trim path CHR ''/'' in if p = [] then [] else Split p CHR ''/'')"

record Router =
  root :: node

definition NewRouter :: Router where
  "NewRouter = \<lparr>root = newNode []\<rparr>"

text \<open>
  The walk of \<^verbatim>\<open>AddRoute\<close>: \<^verbatim>\<open>addChild\<close> at each segment (the existing child, or a new
  node stored in the map), then the route is set at the node reached unless one is there
  already. The nodes are updated in place in the source; here the updated node is returned,
  together with the error.
\<close>

fun addPath :: "node \<Rightarrow> string list \<Rightarrow> Route \<Rightarrow> go_error option \<times> node" where
  "addPath n [] r =
     (case route n of
        Some _ \<Rightarrow> (Some (PlainErr (''route already exists for path: '' @ Path r)), n)
      | None \<Rightarrow> (None, Node (nodeType n) (segment n) (children n) (Some r) (paramName n)))"
| "addPath n (seg # segs) r =
     (let child = (case children n seg of Some c \<Rightarrow> c | None \<Rightarrow> newNode seg);
          res = addPath child segs r
      in (fst res,
          Node (nodeType n) (segment n) ((children n)(seg \<mapsto> snd res)) (route n) (paramName n)))"

definition AddRoute :: "Router \<Rightarrow> Route \<Rightarrow> go_error option \<times> Router" where
  "AddRoute r rt =
     (if Path rt = [] then (Some (PlainErr ''route path is empty''), r)
      else (let res = addPath (root r) (SplitPath (Path rt)) rt
            in (fst res, \<lparr>root = snd res\<rparr>)))"

text \<open>
  The insertion loop of \<^verbatim>\<open>LoadFromConfig\<close> (after sorting and \<^verbatim>\<open>NewRoute\<close>): routes are
  added in list order and the first error ends the loop.
\<close>

fun AddRoutes :: "Router \<Rightarrow> Route list \<Rightarrow> go_error option \<times> Router" where
  "AddRoutes r [] = (None, r)"
| "AddRoutes r (rt # rts) =
     (case AddRoute r rt of
        (Some err, r') \<Rightarrow>
          (Some (PlainErr (''failed to add route '' @ Path rt @ '': '' @ Error_text err)), r')
      | (None, r') \<Rightarrow> AddRoutes r' rts)"

text \<open>
  \<^verbatim>\<open>findRoute\<close>, with the parameter map threaded through; the result is the set of
  possible outcomes (the route found, or \<open>None\<close>, and the parameter map as left).
\<close>

fun findRoute :: "node \<Rightarrow> string list \<Rightarrow> (string \<rightharpoonup> string) \<Rightarrow> (Route option \<times> (string \<rightharpoonup> string)) set" where
  "findRoute current [] params = {(route current, params)}"
| "findRoute current (seg # remaining) params =
     (\<Union>found \<in> findMatchingChild current seg.
        case found of
          None \<Rightarrow> {(None, params)}
        | Some child \<Rightarrow>
            findRoute child remaining
              (if nodeType child = paramNode then params(paramName child \<mapsto> seg) else params))"

definition Match :: "Router \<Rightarrow> string \<Rightarrow> string \<Rightarrow> (go_error + MatchResult) set" where
  "Match r method path =
     (\<lambda>(found, params).
        case found of
          None \<Rightarrow> Inl (GatewayErr (NewNotFoundError (''no route found for path: '' @ path)))
        | Some rt \<Rightarrow>
            (if \<not> HasMethod rt method then
               Inl (GatewayErr (NewError 405 ''METHOD_NOT_ALLOWED''
                                  (''method '' @ method @ '' not allowed'')))
             else Inr \<lparr>matchRoute = rt, Params = params\<rparr>))
     ` findRoute (root r) (SplitPath path) Map.empty"

text \<open>
  Notions used to state properties of the trie: the route stored at the node that the
  segments \<open>ks\<close> lead to by exact keys, and the router after adding a route (whatever
  \<^verbatim>\<open>AddRoute\<close> returns as error).
\<close>

fun route_at :: "node \<Rightarrow> string list \<Rightarrow> Route option" where
  "route_at n [] = route n"
| "route_at n (k # ks) = (case children n k of None \<Rightarrow> None | Some c \<Rightarrow> route_at c ks)"

definition added :: "Route \<Rightarrow> Router \<Rightarrow> Router" where
  "added rt r = snd (AddRoute r rt)"

section \<open>JWT middleware of the gateway (middleware/auth/jwt.go)\<close>

text \<open>
  The signing methods registered by the JWT library (golang-jwt v5, an external dependency),
  by Go type; the string is the \<^verbatim>\<open>alg\<close> name. \<^verbatim>\<open>RS256\<close>, \<^verbatim>\<open>RS384\<close> and \<^verbatim>\<open>RS512\<close> are
  the three values of type \<^verbatim>\<open>*SigningMethodRSA\<close>; the \<^verbatim>\<open>PS\<close> methods have the distinct type
  \<^verbatim>\<open>*SigningMethodRSAPSS\<close>.
\<close>

datatype SigningMethod =
    SigningMethodHMAC string
  | SigningMethodRSA string
  | SigningMethodRSAPSS string
  | SigningMethodECDSA string
  | SigningMethodEd25519
  | SigningMethodNone

definition GetSigningMethod :: "string \<Rightarrow> SigningMethod option" where
  "GetSigningMethod alg =
     (if alg \<in> {''HS256'', ''HS384'', ''HS512''} then Some (SigningMethodHMAC alg)
      else if alg \<in> {''RS256'', ''RS384'', ''RS512''} then Some (SigningMethodRSA alg)
      else if alg \<in> {''PS256'', ''PS384'', ''PS512''} then Some (SigningMethodRSAPSS alg)
      else if alg \<in> {''ES256'', ''ES384'', ''ES512''} then Some (SigningMethodECDSA alg)
      else if alg = ''EdDSA'' then Some SigningMethodEd25519
      else if alg = ''none'' then Some SigningMethodNone
      else None)"

record 'f Token =
  tokRaw :: string
  tokMethod :: SigningMethod
  tokHeader :: "string \<rightharpoonup> 'f go_value"
  tokClaims :: "'f MapClaims"
  tokSignature :: string
  tokValid :: bool

datatype jwt_error =
    ErrTokenMalformed
  | ErrAlgUnspecified
  | ErrAlgUnavailable
  | ErrTokenUnverifiable string
  | ErrTokenSignatureInvalid
  | ErrTokenInvalidClaims

text \<open>
  What the library does that is not modelled further: \<open>libDecode\<close> splits the token string
  into its three segments and decodes header, claims and signature (\<open>None\<close> when the token
  is malformed); \<open>libVerify\<close> is the signing method's \<^verbatim>\<open>Verify\<close> on the token string, the
  signature and the key; \<open>libValidate\<close> is the validation of the registered claims
  (\<^verbatim>\<open>exp\<close>, \<^verbatim>\<open>nbf\<close>, ...) at the time of the call; \<open>libErrorText\<close> is \<^verbatim>\<open>Error()\<close> of the
  library's errors. \<open>'k\<close> is \<^verbatim>\<open>rsa.PublicKey\<close>.
\<close>

record ('f, 'k) JwtLib =
  libDecode :: "string \<Rightarrow> ((string \<rightharpoonup> 'f go_value) \<times> 'f MapClaims \<times> string) option"
  libVerify :: "SigningMethod \<Rightarrow> string \<Rightarrow> string \<Rightarrow> 'k \<Rightarrow> bool"
  libValidate :: "'f MapClaims \<Rightarrow> bool"
  libErrorText :: "jwt_error \<Rightarrow> string"

text \<open>
  \<^verbatim>\<open>jwt.Parse(tokenString, keyFunc)\<close> with no parser options: decode, look up the
  signing method by the header's \<^verbatim>\<open>alg\<close>, ask \<open>keyFunc\<close> for the key, verify the
  signature, validate the claims.
\<close>

definition jwt_Parse ::
  "('f, 'k) JwtLib \<Rightarrow> string \<Rightarrow> ('f Token \<Rightarrow> string + 'k) \<Rightarrow> jwt_error + 'f Token" where
  "jwt_Parse lib tokenString keyFunc =
     (case libDecode lib tokenString of
        None \<Rightarrow> Inl ErrTokenMalformed
      | Some (hdr, claims, sig) \<Rightarrow>
          (case hdr ''alg'' of
             Some (VString alg) \<Rightarrow>
               (case GetSigningMethod alg of
                  None \<Rightarrow> Inl ErrAlgUnavailable
                | Some method \<Rightarrow>
                    (let token = \<lparr>tokRaw = tokenString, tokMethod = method, tokHeader = hdr,
                                  tokClaims = claims, tokSignature = sig, tokValid = False\<rparr>
                     in (case keyFunc token of
                           Inl e \<Rightarrow> Inl (ErrTokenUnverifiable e)
                         | Inr key \<Rightarrow>
                             (if \<not> libVerify lib method tokenString sig key then
                                Inl ErrTokenSignatureInvalid
                              else if \<not> libValidate lib claims then Inl ErrTokenInvalidClaims
                              else Inr (token\<lparr>tokValid := True\<rparr>)))))
           | _ \<Rightarrow> Inl ErrAlgUnspecified))"

record 'k JWTConfig =
  PublicKeys :: "string \<rightharpoonup> 'k"
  SkipValidation :: bool
  RequiredClaims :: "string list"

definition Header_Get :: "Request \<Rightarrow> string \<Rightarrow> string" where
  "Header_Get req k = (case reqHeader req k of None \<Rightarrow> [] | Some v \<Rightarrow> v)"

fun validateRequiredClaims :: "string list \<Rightarrow> 'f MapClaims \<Rightarrow> gatewayError option" where
  "validateRequiredClaims [] claims = None"
| "validateRequiredClaims (requiredClaim # rest) claims =
     (if claims requiredClaim = None then
        Some (NewUnauthorizedError (''missing required claim: '' @ requiredClaim))
      else validateRequiredClaims rest claims)"

text \<open>The key function that \<^verbatim>\<open>Process\<close> passes to \<^verbatim>\<open>jwt.Parse\<close>.\<close>

definition keyFunc :: "'k JWTConfig \<Rightarrow> 'f Token \<Rightarrow> string + 'k" where
  "keyFunc config token =
     (case tokMethod token of
        SigningMethodRSA _ \<Rightarrow>
          (case tokHeader token ''kid'' of
             Some (VString kid) \<Rightarrow>
               (case PublicKeys config kid of
                  None \<Rightarrow> Inl (''public key not found for kid: '' @ kid)
                | Some publicKey \<Rightarrow> Inr publicKey)
           | _ \<Rightarrow> Inl ''kid header not found'')
      | _ \<Rightarrow>
          Inl (''unexpected signing method: ''
               @ (case tokHeader token ''alg'' of Some (VString a) \<Rightarrow> a | _ \<Rightarrow> ''<nil>'')))"

definition JWT_Process ::
  "('f, 'k) JwtLib \<Rightarrow> 'k JWTConfig \<Rightarrow> 'f Context \<Rightarrow> Request \<Rightarrow> 'f Context \<times> go_error option" where
  "JWT_Process lib config ctx req =
     (let authHeader = Header_Get req ''Authorization'' in
      if authHeader = [] then
        (ctx, Some (GatewayErr (NewUnauthorizedError ''missing authorization header'')))
      else
        (let tokenString = TrimPrefix authHeader ''Bearer '' in
         if tokenString = authHeader then
           (ctx, Some (GatewayErr (NewUnauthorizedError ''invalid authorization header format'')))
         else if SkipValidation config then
           (ctx\<lparr>claimsValue := Some [''skip_validation'' \<mapsto> VBool True]\<rparr>, None)
         else
           (case jwt_Parse lib tokenString (keyFunc config) of
              Inl err \<Rightarrow>
                (ctx, Some (GatewayErr (NewUnauthorizedError
                                          (''invalid token: '' @ libErrorText lib err))))
            | Inr token \<Rightarrow>
                (if \<not> tokValid token then
                   (ctx, Some (GatewayErr (NewUnauthorizedError ''token is not valid'')))
                 else
                   (case validateRequiredClaims (RequiredClaims config) (tokClaims token) of
                      Some err \<Rightarrow> (ctx, Some (GatewayErr err))
                    | None \<Rightarrow> (ctx\<lparr>claimsValue := Some (tokClaims token)\<rparr>, None))))))"

section \<open>Test doubles\<close>

text \<open>
  Stages and a transporter in the style of the repository's mock middlewares: each appends
  its name to the external state (a call log) when it runs; \<open>failing_stage\<close> also returns
  an error.
\<close>

definition passing_stage :: "string \<Rightarrow> (int, string list) Middleware" where
  "passing_stage name ctx req e = ((ctx, None), e @ [name])"

definition failing_stage :: "string \<Rightarrow> go_error \<Rightarrow> (int, string list) Middleware" where
  "failing_stage name err ctx req e = ((ctx, Some err), e @ [name])"

definition mock_create :: "MiddlewareConfig \<Rightarrow> go_error + (int, string list) Middleware" where
  "mock_create cfg =
     (if mwType cfg = ''jwt'' then
        Inr (failing_stage ''jwt''
               (GatewayErr (NewUnauthorizedError ''missing authorization header'')))
      else if mwType cfg \<in> {''logging'', ''revoke'', ''cors'', ''recovery''} then
        Inr (passing_stage (mwType cfg))
      else Inl (PlainErr (''unknown middleware type: '' @ mwType cfg)))"

definition mock_route :: Route where
  "mock_route =
     \<lparr>Path = ''/api/v1/users'', Methods = [''GET'', ''POST''],
      routeBackend = \<lparr>backendURL = ''http://backend.example.com'', backendTimeout = 0\<rparr>,
      Middleware = [\<lparr>mwType = ''logging'', mwConfig = []\<rparr>, \<lparr>mwType = ''jwt'', mwConfig = []\<rparr>,
                    \<lparr>mwType = ''revoke'', mwConfig = []\<rparr>],
      Priority = 0\<rparr>"

definition mock_transporter ::
  "int Context \<Rightarrow> Request \<Rightarrow> TransportBackend \<Rightarrow> ResponseWriter \<times> string list
     \<Rightarrow> go_error option \<times> ResponseWriter \<times> string list" where
  "mock_transporter ctx r b we = (None, Write (Raw ''ok'') (fst we), snd we @ [''transport''])"

definition mock_gateway :: "(int, string list) Gateway" where
  "mock_gateway =
     \<lparr>router_Match = (\<lambda>m p. Inr \<lparr>matchRoute = mock_route, Params = Map.empty\<rparr>),
      transporter = mock_transporter,
      middlewareFactory = Some mock_create\<rparr>"

definition mock_request :: Request where
  "mock_request = \<lparr>reqMethod = ''GET'', urlPath = ''/api/v1/users'', reqHeader = Map.empty\<rparr>"

text \<open>
  A library instance for one token signed with the algorithm \<open>alg\<close>: the string \<^verbatim>\<open>tok\<close>
  decodes to a header with that \<^verbatim>\<open>alg\<close> and \<^verbatim>\<open>kid = key-1\<close>, and its signature verifies
  with the signing method of \<open>alg\<close> under the key \<^verbatim>\<open>pub-1\<close> (the token was signed with the
  matching private key) and under nothing else.
\<close>

definition token_lib :: "string \<Rightarrow> (int, string) JwtLib" where
  "token_lib alg =
     \<lparr>libDecode = (\<lambda>s. if s = ''tok'' then
                           Some ([''alg'' \<mapsto> VString alg, ''kid'' \<mapsto> VString ''key-1''],
                                 [''sub'' \<mapsto> VString ''u1'', ''iat'' \<mapsto> VFloat64 1000],
                                 ''sig'')
                         else None),
      libVerify = (\<lambda>m raw sig key. GetSigningMethod alg = Some m \<and> raw = ''tok''
                                     \<and> sig = ''sig'' \<and> key = ''pub-1''),
      libValidate = (\<lambda>claims. True),
      libErrorText = (\<lambda>e. ''token error'')\<rparr>"

definition one_key_config :: "string JWTConfig" where
  "one_key_config =
     \<lparr>PublicKeys = [''key-1'' \<mapsto> ''pub-1''], SkipValidation = False,
      RequiredClaims = [''sub'', ''iat'']\<rparr>"

text \<open>Routes in the style of the router tests.\<close>

definition route_to :: "string \<Rightarrow> string list \<Rightarrow> Route" where
  "route_to path methods =
     \<lparr>Path = path, Methods = methods,
      routeBackend = \<lparr>backendURL = ''http://backend.example.com'', backendTimeout = 0\<rparr>,
      Middleware = [], Priority = 0\<rparr>"

section \<open>Properties\<close>

text \<open>
  C9. For every user id, revoked time and every TTL \<open>\<le> 0\<close>, \<open>SetRevokedTime\<close> returns the nil
  error and leaves the store as it was, whatever the driver's \<open>Set\<close> would do.
\<close>

theorem SetRevokedTime_nonpositive_ttl_noop:
  "expiration \<le>s 0 \<Longrightarrow> SetRevokedTime fmt drv r userID revokedTime expiration s = (None, s)"
  by (simp add: SetRevokedTime_def)

theorem SetRevokedTime_nonpositive_ttl_noop_witness:
  "(0 :: 64 word) \<le>s 0 \<and>
   SetRevokedTime (\<lambda>t. ''2024-01-01T00:00:00Z'') (\<lambda>k v d st. (None, st((k) \<mapsto> v)))
     (NewRedisSessionRepository '''') ''u1'' \<lparr>sec = 63839750400, nsec = 0\<rparr> 0 Map.empty
   = (None, Map.empty)"
  using SetRevokedTime_nonpositive_ttl_noop
    [of 0 "\<lambda>t. ''2024-01-01T00:00:00Z''" "\<lambda>k v d st. (None, st((k) \<mapsto> v))"
        "NewRedisSessionRepository ''''" "''u1''" "\<lparr>sec = 63839750400, nsec = 0\<rparr>" Map.empty]
  by simp

lemma sec_time_Unix:
  assumes "sint t0 + 62135596800 < 2 ^ 63"
  shows "sint (sec (time_Unix t0)) = sint t0 + 62135596800"
proof -
  have lo: "- (2 ^ 63) \<le> sint t0"
    using sint_ge [of t0] by simp
  have "sint (t0 + 62135596800) = signed_take_bit 63 (sint t0 + sint (62135596800 :: 64 word))"
    by (simp add: sint_word_ariths)
  also have "sint (62135596800 :: 64 word) = 62135596800"
    by simp
  also have "signed_take_bit 63 (sint t0 + 62135596800) = sint t0 + 62135596800"
    using assms lo by (simp add: signed_take_bit_int_eq_self)
  finally show ?thesis by (simp add: time_Unix_def unixToInternal_def)
qed

lemma Before_time_Unix:
  assumes "sint t0 + 62135596800 < 2 ^ 63"
  shows "Before (time_Unix t0) T1 \<longleftrightarrow>
           sint t0 < unixSeconds T1 \<or> (sint t0 = unixSeconds T1 \<and> 0 < nsec T1)"
proof -
  have s: "sint (sec (time_Unix t0)) = sint t0 + 62135596800"
    using assms by (rule sec_time_Unix)
  have e: "sec (time_Unix t0) = sec T1 \<longleftrightarrow> sint (sec (time_Unix t0)) = sint (sec T1)"
    by (auto intro: signed_word_eqI)
  have n: "nsec (time_Unix t0) = 0" by (simp add: time_Unix_def)
  show ?thesis
    unfolding Before_def word_sless_alt e s n unixSeconds_def by auto
qed

text \<open>
  C1 (as stated, refuted). The claims carry user id \<^verbatim>\<open>u1\<close> and the issued-at
  \<open>2\<^sup>6\<^sup>3 - 1\<close> (an int64), the store holds the marker of Unix second 2000 for the user.
  The issued-at is later than the marker, yet the middleware answers "token has been
  revoked": \<^verbatim>\<open>time.Unix\<close> adds the offset of the Unix epoch in int64 and wraps around.
\<close>

theorem Revoke_Process_far_future_iat_revoked:
  "Revoke_Process (\<lambda>f :: int. word_of_int f)
     (NewRevokeMiddleware \<lparr>cfgRepository = (\<lambda>u. Inr (time_Unix 2000)), cfgUserIDClaim = [],
                           cfgIssuedAtClaim = [], cfgFailOpen = False\<rparr>)
     \<lparr>claimsValue = Some [''sub'' \<mapsto> VString ''u1'', ''iat'' \<mapsto> VInt64 9223372036854775807]\<rparr>
     \<lparr>reqMethod = ''GET'', urlPath = ''/api/v1/users'', reqHeader = Map.empty\<rparr>
   = (\<lparr>claimsValue = Some [''sub'' \<mapsto> VString ''u1'', ''iat'' \<mapsto> VInt64 9223372036854775807]\<rparr>,
      Some (GatewayErr (NewError 401 ''Unauthorized'' ''token has been revoked'')))
   \<and> unixSeconds (time_Unix 2000) < sint (9223372036854775807 :: 64 word)"
  by (simp add: Revoke_Process_def GetClaimsFromContext_def getUserID_def getIssuedAt_def
      NewRevokeMiddleware_def IsZero_def Before_def time_Unix_def unixToInternal_def
      unixSeconds_def word_sless_alt)

text \<open>
  C1 (amended). The context carries claims whose user-id entry is the non-empty string \<open>u\<close>
  and whose issued-at entry is a number (int64, int, or float64 converted to int64) of
  \<open>t0\<close> seconds, with \<open>t0 + 62135596800 < 2\<^sup>6\<^sup>3\<close> (so that \<^verbatim>\<open>time.Unix\<close> does not wrap),
  and the session store answers for \<open>u\<close> with the revoked time \<open>T1\<close>. Then the revocation
  middleware passes when \<open>T1\<close> is the zero time (no marker); passes when a marker exists and
  the issued-at instant is not before it (\<open>T0 \<ge> T1\<close>); and returns Unauthorized "token has
  been revoked" exactly when a marker exists and the issued-at instant is before it
  (\<open>T0 < T1\<close>). Instants are compared as integers: whole Unix seconds first, then the
  marker's nanoseconds. The context is returned unchanged.
\<close>

theorem Revoke_Process_decision:
  assumes "GetClaimsFromContext ctx = Some claims"
    and "claims (userIDClaim m) = Some (VString u)" and "u \<noteq> []"
    and "claims (issuedAtClaim m) = Some v"
    and "v = VInt64 t0 \<or> v = VInt t0 \<or> (\<exists>f. v = VFloat64 f \<and> toInt64 f = t0)"
    and "sint t0 + 62135596800 < 2 ^ 63"
    and "repository m u = Inr T1"
  shows "(IsZero T1 \<longrightarrow> Revoke_Process toInt64 m ctx req = (ctx, None))
       \<and> (\<not> IsZero T1
            \<and> (unixSeconds T1 < sint t0 \<or> (unixSeconds T1 = sint t0 \<and> nsec T1 = 0))
          \<longrightarrow> Revoke_Process toInt64 m ctx req = (ctx, None))
       \<and> (\<not> IsZero T1 \<longrightarrow>
            (Revoke_Process toInt64 m ctx req =
               (ctx, Some (GatewayErr (NewError 401 ''Unauthorized'' ''token has been revoked'')))
             \<longleftrightarrow> sint t0 < unixSeconds T1 \<or> (sint t0 = unixSeconds T1 \<and> 0 < nsec T1)))"
proof -
  have uid: "getUserID m claims = Inr u"
    using assms(2,3) by (simp add: getUserID_def)
  have iat: "getIssuedAt toInt64 m claims = Inr (time_Unix t0)"
    using assms(4,5) by (auto simp: getIssuedAt_def)
  have bf: "Before (time_Unix t0) T1 \<longleftrightarrow>
              sint t0 < unixSeconds T1 \<or> (sint t0 = unixSeconds T1 \<and> 0 < nsec T1)"
    using assms(6) by (rule Before_time_Unix)
  have res: "Revoke_Process toInt64 m ctx req =
      (if IsZero T1 then (ctx, None)
       else if Before (time_Unix t0) T1 then
         (ctx, Some (GatewayErr (NewError 401 ''Unauthorized'' ''token has been revoked'')))
       else (ctx, None))"
    using assms(1,7) uid iat by (simp add: Revoke_Process_def)
  show ?thesis
    unfolding res bf by auto
qed

theorem Revoke_Process_decision_witness:
  "Revoke_Process (\<lambda>f :: int. word_of_int f)
     (NewRevokeMiddleware
        \<lparr>cfgRepository = (\<lambda>u. if u = ''u1'' then Inr (time_Unix 2000) else Inr \<lparr>sec = 0, nsec = 0\<rparr>),
         cfgUserIDClaim = [], cfgIssuedAtClaim = [], cfgFailOpen = False\<rparr>)
     \<lparr>claimsValue = Some [''sub'' \<mapsto> VString ''u1'', ''iat'' \<mapsto> VFloat64 1000]\<rparr>
     \<lparr>reqMethod = ''GET'', urlPath = ''/api/v1/users'', reqHeader = Map.empty\<rparr>
   = (\<lparr>claimsValue = Some [''sub'' \<mapsto> VString ''u1'', ''iat'' \<mapsto> VFloat64 1000]\<rparr>,
      Some (GatewayErr (NewError 401 ''Unauthorized'' ''token has been revoked'')))
   \<and> Revoke_Process (\<lambda>f :: int. word_of_int f)
     (NewRevokeMiddleware
        \<lparr>cfgRepository = (\<lambda>u. if u = ''u1'' then Inr (time_Unix 2000) else Inr \<lparr>sec = 0, nsec = 0\<rparr>),
         cfgUserIDClaim = [], cfgIssuedAtClaim = [], cfgFailOpen = False\<rparr>)
     \<lparr>claimsValue = Some [''sub'' \<mapsto> VString ''u1'', ''iat'' \<mapsto> VInt64 2000]\<rparr>
     \<lparr>reqMethod = ''GET'', urlPath = ''/api/v1/users'', reqHeader = Map.empty\<rparr>
   = (\<lparr>claimsValue = Some [''sub'' \<mapsto> VString ''u1'', ''iat'' \<mapsto> VInt64 2000]\<rparr>, None)
   \<and> Revoke_Process (\<lambda>f :: int. word_of_int f)
     (NewRevokeMiddleware
        \<lparr>cfgRepository = (\<lambda>u. if u = ''u1'' then Inr (time_Unix 2000) else Inr \<lparr>sec = 0, nsec = 0\<rparr>),
         cfgUserIDClaim = [], cfgIssuedAtClaim = [], cfgFailOpen = False\<rparr>)
     \<lparr>claimsValue = Some [''sub'' \<mapsto> VString ''u2'', ''iat'' \<mapsto> VInt 1000]\<rparr>
     \<lparr>reqMethod = ''GET'', urlPath = ''/api/v1/users'', reqHeader = Map.empty\<rparr>
   = (\<lparr>claimsValue = Some [''sub'' \<mapsto> VString ''u2'', ''iat'' \<mapsto> VInt 1000]\<rparr>, None)"
proof -
  let ?m = "NewRevokeMiddleware
        \<lparr>cfgRepository = (\<lambda>u. if u = ''u1'' then Inr (time_Unix 2000) else Inr \<lparr>sec = 0, nsec = 0\<rparr>),
         cfgUserIDClaim = [], cfgIssuedAtClaim = [], cfgFailOpen = False\<rparr>"
  let ?conv = "\<lambda>f :: int. (word_of_int f :: 64 word)"
  let ?req = "\<lparr>reqMethod = ''GET'', urlPath = ''/api/v1/users'', reqHeader = Map.empty\<rparr>"
  let ?c1 = "[''sub'' \<mapsto> VString ''u1'', ''iat'' \<mapsto> VFloat64 (1000::int)]"
  let ?c2 = "[''sub'' \<mapsto> VString ''u1'', ''iat'' \<mapsto> VInt64 2000] :: int MapClaims"
  let ?c3 = "[''sub'' \<mapsto> VString ''u2'', ''iat'' \<mapsto> VInt 1000] :: int MapClaims"
  have uc: "userIDClaim ?m = ''sub''" and ic: "issuedAtClaim ?m = ''iat''"
    by (simp_all add: NewRevokeMiddleware_def)
  have r1: "repository ?m ''u1'' = Inr (time_Unix 2000)"
    and r2: "repository ?m ''u2'' = Inr \<lparr>sec = 0, nsec = 0\<rparr>"
    by (simp_all add: NewRevokeMiddleware_def)
  have nz: "\<not> IsZero (time_Unix 2000)" and z: "IsZero \<lparr>sec = 0, nsec = 0\<rparr>"
    by (simp_all add: IsZero_def time_Unix_def unixToInternal_def)
  have us: "unixSeconds (time_Unix 2000) = 2000" and ns: "nsec (time_Unix 2000) = 0"
    by (simp_all add: unixSeconds_def time_Unix_def unixToInternal_def)
  have first: "Revoke_Process ?conv ?m \<lparr>claimsValue = Some ?c1\<rparr> ?req
      = (\<lparr>claimsValue = Some ?c1\<rparr>,
         Some (GatewayErr (NewError 401 ''Unauthorized'' ''token has been revoked'')))"
    using Revoke_Process_decision [where ctx = "\<lparr>claimsValue = Some ?c1\<rparr>" and claims = ?c1
        and m = ?m and u = "''u1''" and v = "VFloat64 1000" and ?t0.0 = 1000 and ?toInt64.0 = ?conv
        and ?T1.0 = "time_Unix 2000" and req = ?req]
      uc ic r1 nz us ns
    by (simp add: GetClaimsFromContext_def)
  have second: "Revoke_Process ?conv ?m \<lparr>claimsValue = Some ?c2\<rparr> ?req
      = (\<lparr>claimsValue = Some ?c2\<rparr>, None)"
    using Revoke_Process_decision [where ctx = "\<lparr>claimsValue = Some ?c2\<rparr>" and claims = ?c2
        and m = ?m and u = "''u1''" and v = "VInt64 2000" and ?t0.0 = 2000 and ?toInt64.0 = ?conv
        and ?T1.0 = "time_Unix 2000" and req = ?req]
      uc ic r1 nz us ns
    by (simp add: GetClaimsFromContext_def)
  have third: "Revoke_Process ?conv ?m \<lparr>claimsValue = Some ?c3\<rparr> ?req
      = (\<lparr>claimsValue = Some ?c3\<rparr>, None)"
    using Revoke_Process_decision [where ctx = "\<lparr>claimsValue = Some ?c3\<rparr>" and claims = ?c3
        and m = ?m and u = "''u2''" and v = "VInt 1000" and ?t0.0 = 1000 and ?toInt64.0 = ?conv
        and ?T1.0 = "\<lparr>sec = 0, nsec = 0\<rparr>" and req = ?req]
      uc ic r2 z
    by (simp add: GetClaimsFromContext_def)
  from first second third show ?thesis by simp
qed

lemma jsonString_ascii: "\<forall>c \<in> set s. (of_char c :: nat) < 128 \<Longrightarrow> jsonString s = s"
  by (induction s) simp_all

text \<open>
  C10. For every request whose method is OPTIONS, the gateway handler only writes status 204:
  nothing is written to the body, the router, the middleware factory and the transporter
  play no part in the result, and the external state (session store, backend) is untouched.
  On a fresh response writer the response is exactly "204, no headers, empty body".
\<close>

theorem ServeHTTP_options:
  "ServeHTTP g w (r\<lparr>reqMethod := ''OPTIONS''\<rparr>) rctx e = (WriteHeader 204 w, e)
   \<and> ServeHTTP g newResponseWriter (r\<lparr>reqMethod := ''OPTIONS''\<rparr>) rctx e
       = (\<lparr>wroteStatus = Some 204, respHeader = Map.empty, respBody = []\<rparr>, e)"
  by (simp add: ServeHTTP_def WriteHeader_def newResponseWriter_def)

text \<open>
  C7. If the stages before \<open>s\<close> all pass and \<open>s\<close> returns an error, then \<open>Execute\<close> returns
  that error with the external state exactly as \<open>s\<close> left it, whatever stages follow \<open>s\<close>
  in the chain; and when this chain is the one built for the matched route, the gateway
  answers with the error response and the same external state, whatever its transporter is:
  neither a later stage nor the transporter is run.
\<close>

theorem Execute_short_circuit:
  assumes "Execute pre ctx req e = ((ctx1, None), e1)"
    and "s ctx1 req e1 = ((ctx2, Some err), e2)"
  shows "Execute (pre @ s # post) ctx req e = ((ctx2, Some err), e2)
       \<and> (reqMethod req \<noteq> ''OPTIONS''
            \<and> router_Match g (reqMethod req) (urlPath req) = Inr mr
            \<and> Middleware (matchRoute mr) \<noteq> []
            \<and> buildMiddlewareChain g (Middleware (matchRoute mr)) = Inr (pre @ s # post)
          \<longrightarrow> ServeHTTP (g\<lparr>transporter := t\<rparr>) w req ctx e
                = (handleError w req (GatewayErr (WrapError err 401 ''MIDDLEWARE_ERROR'')), e2))"
proof -
  have ex: "Execute (pre @ s # post) ctx req e = ((ctx2, Some err), e2)"
    using assms
  proof (induction pre arbitrary: ctx e)
    case Nil
    then show ?case by simp
  next
    case (Cons mw pre)
    then show ?case
      by (auto split: prod.splits option.splits)
  qed
  have bm: "buildMiddlewareChain (g\<lparr>transporter := t\<rparr>) cs = buildMiddlewareChain g cs" for cs
    by (simp add: buildMiddlewareChain_def)
  show ?thesis
    using ex by (simp add: ServeHTTP_def bm)
qed

theorem Execute_short_circuit_witness:
  "Execute [passing_stage ''logging'',
            failing_stage ''jwt'' (GatewayErr (NewUnauthorizedError ''missing authorization header'')),
            passing_stage ''revoke'']
     \<lparr>claimsValue = None\<rparr> mock_request []
     = ((\<lparr>claimsValue = None\<rparr>,
         Some (GatewayErr (NewUnauthorizedError ''missing authorization header''))),
        [''logging'', ''jwt''])
   \<and> ServeHTTP mock_gateway newResponseWriter mock_request \<lparr>claimsValue = None\<rparr> []
     = (\<lparr>wroteStatus = Some 401, respHeader = [''Content-Type'' \<mapsto> ''application/json''],
         respBody = [Encoded (JObj [(''error'',
                       JObj [(''code'', JStr ''UNAUTHORIZED''),
                             (''message'', JStr ''missing authorization header'')])])]\<rparr>,
        [''logging'', ''jwt''])"
proof -
  let ?err = "GatewayErr (NewUnauthorizedError ''missing authorization header'')"
  let ?ctx = "\<lparr>claimsValue = None\<rparr> :: int Context"
  have h1: "Execute [passing_stage ''logging''] ?ctx mock_request []
              = ((?ctx, None), [''logging''])"
    by (simp add: passing_stage_def)
  have h2: "failing_stage ''jwt'' ?err ?ctx mock_request [''logging'']
              = ((?ctx, Some ?err), [''logging'', ''jwt''])"
    by (simp add: failing_stage_def)
  have g1: "reqMethod mock_request \<noteq> ''OPTIONS''"
    by (simp add: mock_request_def)
  have g2: "router_Match mock_gateway (reqMethod mock_request) (urlPath mock_request)
              = Inr \<lparr>matchRoute = mock_route, Params = Map.empty\<rparr>"
    by (simp add: mock_gateway_def)
  have g3: "Middleware (matchRoute \<lparr>matchRoute = mock_route, Params = Map.empty\<rparr>) \<noteq> []"
    by (simp add: mock_route_def)
  have g4: "buildMiddlewareChain mock_gateway
              (Middleware (matchRoute \<lparr>matchRoute = mock_route, Params = Map.empty\<rparr>))
            = Inr ([passing_stage ''logging''] @ failing_stage ''jwt'' ?err # [passing_stage ''revoke''])"
    by (simp add: buildMiddlewareChain_def mock_gateway_def mock_route_def mock_create_def)
  have g5: "mock_gateway\<lparr>transporter := mock_transporter\<rparr> = mock_gateway"
    by (simp add: mock_gateway_def)
  have r: "handleError newResponseWriter mock_request
             (GatewayErr (WrapError ?err 401 ''MIDDLEWARE_ERROR''))
           = \<lparr>wroteStatus = Some 401, respHeader = [''Content-Type'' \<mapsto> ''application/json''],
              respBody = [Encoded (JObj [(''error'',
                            JObj [(''code'', JStr ''UNAUTHORIZED''),
                                  (''message'', JStr ''missing authorization header'')])])]\<rparr>"
    by (simp add: handleError_def WrapError_def NewUnauthorizedError_def NewError_def ToJSON_def
        Write_def WriteHeader_def Header_Set_def newResponseWriter_def jsonString_ascii)
  have "Execute ([passing_stage ''logging''] @ failing_stage ''jwt'' ?err # [passing_stage ''revoke''])
          ?ctx mock_request [] = ((?ctx, Some ?err), [''logging'', ''jwt''])
       \<and> (reqMethod mock_request \<noteq> ''OPTIONS''
            \<and> router_Match mock_gateway (reqMethod mock_request) (urlPath mock_request)
                = Inr \<lparr>matchRoute = mock_route, Params = Map.empty\<rparr>
            \<and> Middleware (matchRoute \<lparr>matchRoute = mock_route, Params = Map.empty\<rparr>) \<noteq> []
            \<and> buildMiddlewareChain mock_gateway
                  (Middleware (matchRoute \<lparr>matchRoute = mock_route, Params = Map.empty\<rparr>))
                = Inr ([passing_stage ''logging''] @ failing_stage ''jwt'' ?err
                       # [passing_stage ''revoke''])
          \<longrightarrow> ServeHTTP (mock_gateway\<lparr>transporter := mock_transporter\<rparr>) newResponseWriter
                mock_request ?ctx []
                = (handleError newResponseWriter mock_request
                     (GatewayErr (WrapError ?err 401 ''MIDDLEWARE_ERROR'')), [''logging'', ''jwt'']))"
    by (rule Execute_short_circuit [where ?ctx1.0 = ?ctx and ?e1.0 = "[''logging'']"]) (rule h1, rule h2)
  with g1 g2 g3 g4 g5 r
  show ?thesis by simp
qed




text \<open>
  C8 (as stated, refuted). For the operation id \<^verbatim>\<open>v1UndefinedOperation\<close>, absent from the
  role map, and admin claims, the authorization middleware denies with a Forbidden error and
  does not run the next handler, but the message the error carries is the Japanese literal
  of the source, not "no role mapping \<emdash> default deny".
\<close>

theorem Handle_unmapped_message_differs:
  "Handle \<lparr>OperationID = ''v1UndefinedOperation'',
            ctxClaims = Some \<lparr>UserID = ''user123'', Role = ''admin''\<rparr>\<rparr>
     (\<lambda>req w. (Inr (), w @ [''next''])) []
     = (Inl (ForbiddenError msg_forbidden_no_mapping), [])
   \<and> GetUserMessage (ForbiddenError msg_forbidden_no_mapping)
     \<noteq> ''no role mapping '' @ [CHR 0xE2, CHR 0x80, CHR 0x94] @ '' default deny''"
  by (simp add: Handle_def authorizeRoleMap_def NewForbidden_def msg_forbidden_no_mapping_def)

text \<open>
  C8 (amended). For every request whose operation id is absent from the role map, whatever
  claims the context holds, the authorization middleware returns a Forbidden error (status
  403) whose user message is the source's literal \<open>msg_forbidden_no_mapping\<close>, and the
  state is returned as it was for every next handler: the next handler is not run.
\<close>

theorem Handle_default_deny:
  "authorizeRoleMap (OperationID req) = None \<Longrightarrow>
     Handle req next w = (Inl (ForbiddenError msg_forbidden_no_mapping), w)
     \<and> ToHTTPStatus (ForbiddenError msg_forbidden_no_mapping) = 403
     \<and> GetUserMessage (ForbiddenError msg_forbidden_no_mapping) = msg_forbidden_no_mapping"
  by (simp add: Handle_def NewForbidden_def)

theorem Handle_default_deny_witness:
  "authorizeRoleMap ''v1DeleteUsers'' = None
   \<and> Handle \<lparr>OperationID = ''v1DeleteUsers'',
              ctxClaims = Some \<lparr>UserID = ''user123'', Role = ''admin''\<rparr>\<rparr>
       (\<lambda>req w. (Inr ''ok'', w @ [''next''])) []
     = (Inl (ForbiddenError msg_forbidden_no_mapping), [])"
proof -
  have h: "authorizeRoleMap (OperationID \<lparr>OperationID = ''v1DeleteUsers'',
              ctxClaims = Some \<lparr>UserID = ''user123'', Role = ''admin''\<rparr>\<rparr>) = None"
    by (simp add: authorizeRoleMap_def)
  from Handle_default_deny [OF h, of "\<lambda>req w. (Inr ''ok'', w @ [''next''])" "[]"] h
  show ?thesis by simp
qed

lemma bearer_split:
  assumes "authHeader = ''Bearer '' @ tok"
  shows "TrimPrefix authHeader ''Bearer '' = tok" and "tok \<noteq> authHeader" and "authHeader \<noteq> []"
proof -
  show "TrimPrefix authHeader ''Bearer '' = tok"
    using assms by (simp add: TrimPrefix_def)
  have "length authHeader = length tok + 7"
    using assms by simp
  then show "tok \<noteq> authHeader" by auto
  show "authHeader \<noteq> []"
    using assms by simp
qed

lemma keyFunc_not_RSA:
  "\<forall>a. tokMethod token \<noteq> SigningMethodRSA a \<Longrightarrow> \<exists>e. keyFunc config token = Inl e"
  by (cases "tokMethod token") (auto simp: keyFunc_def)

lemma GetSigningMethod_RSA:
  "GetSigningMethod alg = Some (SigningMethodRSA a) \<Longrightarrow> alg \<in> {''RS256'', ''RS384'', ''RS512''}"
  by (simp add: GetSigningMethod_def split: if_splits)

lemma jwt_Parse_not_RSA:
  assumes "libDecode lib tok = Some (hdr, claims, sig)"
    and "hdr ''alg'' \<notin> {Some (VString ''RS256''), Some (VString ''RS384''), Some (VString ''RS512'')}"
  shows "\<exists>err. jwt_Parse lib tok (keyFunc config) = Inl err"
proof (cases "hdr ''alg''")
  case None
  with assms show ?thesis by (simp add: jwt_Parse_def)
next
  case (Some v)
  show ?thesis
  proof (cases v)
    case (VString alg)
    show ?thesis
    proof (cases "GetSigningMethod alg")
      case None
      with assms Some VString show ?thesis by (simp add: jwt_Parse_def)
    next
      case (Some sm)
      have "\<forall>a. sm \<noteq> SigningMethodRSA a"
        using GetSigningMethod_RSA [of alg] Some assms(2) \<open>hdr ''alg'' = Some v\<close> VString
        by auto
      then obtain e where
        "keyFunc config \<lparr>tokRaw = tok, tokMethod = sm, tokHeader = hdr, tokClaims = claims,
                          tokSignature = sig, tokValid = False\<rparr> = Inl e"
        using keyFunc_not_RSA [of "\<lparr>tokRaw = tok, tokMethod = sm, tokHeader = hdr,
          tokClaims = claims, tokSignature = sig, tokValid = False\<rparr>" config]
        by auto
      with assms Some VString \<open>hdr ''alg'' = Some v\<close> show ?thesis
        by (simp add: jwt_Parse_def)
    qed
  qed (use assms Some in \<open>simp_all add: jwt_Parse_def\<close>)
qed

lemma validateRequiredClaims_present:
  "\<forall>c \<in> set required. claims c \<noteq> None \<Longrightarrow> validateRequiredClaims required claims = None"
  by (induction required) simp_all

lemma jwt_Parse_RSA:
  assumes "libDecode lib tok = Some (hdr, claims, sig)"
    and "hdr ''alg'' = Some (VString alg)" and "alg \<in> {''RS256'', ''RS384'', ''RS512''}"
    and "hdr ''kid'' = Some (VString kid)" and "PublicKeys config kid = Some key"
    and "libVerify lib (SigningMethodRSA alg) tok sig key" and "libValidate lib claims"
  shows "jwt_Parse lib tok (keyFunc config)
           = Inr \<lparr>tokRaw = tok, tokMethod = SigningMethodRSA alg, tokHeader = hdr,
                  tokClaims = claims, tokSignature = sig, tokValid = True\<rparr>"
proof -
  have g: "GetSigningMethod alg = Some (SigningMethodRSA alg)"
    using assms(3) by (auto simp: GetSigningMethod_def)
  have k: "keyFunc config \<lparr>tokRaw = tok, tokMethod = SigningMethodRSA alg, tokHeader = hdr,
                            tokClaims = claims, tokSignature = sig, tokValid = False\<rparr> = Inr key"
    using assms(4,5) by (simp add: keyFunc_def)
  show ?thesis
    using assms(1,2,6,7) g k by (simp add: jwt_Parse_def)
qed

text \<open>
  C3 (as stated, refuted). With skip-validation off and the public key \<^verbatim>\<open>pub-1\<close> configured
  under \<^verbatim>\<open>key-1\<close>, a bearer token whose header says \<^verbatim>\<open>alg = RS384\<close> and whose RS384
  signature verifies under that key is accepted: the middleware returns no error and stores
  the token's claims in the context.
\<close>

theorem JWT_Process_accepts_RS384:
  "JWT_Process (token_lib ''RS384'') one_key_config \<lparr>claimsValue = None\<rparr>
     \<lparr>reqMethod = ''GET'', urlPath = ''/api/v1/users'',
      reqHeader = [''Authorization'' \<mapsto> ''Bearer tok'']\<rparr>
   = (\<lparr>claimsValue = Some [''sub'' \<mapsto> VString ''u1'', ''iat'' \<mapsto> VFloat64 1000]\<rparr>, None)"
  by (simp add: JWT_Process_def Header_Get_def TrimPrefix_def token_lib_def one_key_config_def
      jwt_Parse_def GetSigningMethod_def keyFunc_def NewUnauthorizedError_def NewError_def)

text \<open>
  C3 (amended). With skip-validation off, for every bearer token that decodes: when its
  header \<^verbatim>\<open>alg\<close> is not one of RS256, RS384, RS512 (the methods of type
  \<^verbatim>\<open>SigningMethodRSA\<close>), the JWT middleware returns an Unauthorized error and leaves the
  context unchanged, whatever the signature check and the claims validation would say; and
  when its \<^verbatim>\<open>alg\<close> is any of RS256, RS384, RS512, its \<^verbatim>\<open>kid\<close> names a configured public key,
  the signature verifies with that method under that key, the registered claims validate and
  every required claim is present, the middleware accepts the token and stores its claims in
  the context, for RS384 and RS512 exactly as for RS256.
\<close>

theorem JWT_Process_RSA_family:
  assumes "\<not> SkipValidation config"
    and "reqHeader req ''Authorization'' = Some (''Bearer '' @ tok)"
    and "libDecode lib tok = Some (hdr, claims, sig)"
  shows "(hdr ''alg'' \<notin> {Some (VString ''RS256''), Some (VString ''RS384''),
                          Some (VString ''RS512'')}
          \<longrightarrow> (\<exists>msg. JWT_Process lib config ctx req
                       = (ctx, Some (GatewayErr (NewUnauthorizedError msg)))))
       \<and> (hdr ''alg'' = Some (VString alg) \<and> alg \<in> {''RS256'', ''RS384'', ''RS512''}
            \<and> hdr ''kid'' = Some (VString kid) \<and> PublicKeys config kid = Some key
            \<and> libVerify lib (SigningMethodRSA alg) tok sig key \<and> libValidate lib claims
            \<and> (\<forall>c \<in> set (RequiredClaims config). claims c \<noteq> None)
          \<longrightarrow> JWT_Process lib config ctx req = (ctx\<lparr>claimsValue := Some claims\<rparr>, None))"
proof -
  define authHeader where "authHeader = Header_Get req ''Authorization''"
  have "authHeader = ''Bearer '' @ tok"
    using assms(2) by (simp add: authHeader_def Header_Get_def)
  note b = bearer_split [OF this]
  have rej: "\<exists>msg. JWT_Process lib config ctx req
                = (ctx, Some (GatewayErr (NewUnauthorizedError msg)))"
    if nr: "hdr ''alg'' \<notin> {Some (VString ''RS256''), Some (VString ''RS384''),
                              Some (VString ''RS512'')}"
  proof -
    obtain err where e: "jwt_Parse lib tok (keyFunc config) = Inl err"
      using jwt_Parse_not_RSA [OF assms(3) nr] by blast
    have "JWT_Process lib config ctx req
            = (ctx, Some (GatewayErr (NewUnauthorizedError
                                        (''invalid token: '' @ libErrorText lib err))))"
      unfolding JWT_Process_def authHeader_def [symmetric] Let_def
      using b assms(1) e by simp
    then show ?thesis by blast
  qed
  have acc: "JWT_Process lib config ctx req = (ctx\<lparr>claimsValue := Some claims\<rparr>, None)"
    if "hdr ''alg'' = Some (VString alg)" and "alg \<in> {''RS256'', ''RS384'', ''RS512''}"
      and "hdr ''kid'' = Some (VString kid)" and "PublicKeys config kid = Some key"
      and "libVerify lib (SigningMethodRSA alg) tok sig key" and "libValidate lib claims"
      and "\<forall>c \<in> set (RequiredClaims config). claims c \<noteq> None"
  proof -
    note p = jwt_Parse_RSA [OF assms(3) that(1) that(2) that(3) that(4) that(5) that(6)]
    note v = validateRequiredClaims_present [OF that(7)]
    show ?thesis
      unfolding JWT_Process_def authHeader_def [symmetric] Let_def
      using b assms(1) p v by simp
  qed
  from rej acc show ?thesis by blast
qed

theorem JWT_Process_RSA_family_witness:
  "JWT_Process (token_lib ''HS256'') one_key_config \<lparr>claimsValue = None\<rparr>
     \<lparr>reqMethod = ''GET'', urlPath = ''/api/v1/users'',
      reqHeader = [''Authorization'' \<mapsto> ''Bearer tok'']\<rparr>
   = (\<lparr>claimsValue = None\<rparr>,
      Some (GatewayErr (NewUnauthorizedError ''invalid token: token error'')))
   \<and> JWT_Process (token_lib ''RS512'') one_key_config \<lparr>claimsValue = None\<rparr>
     \<lparr>reqMethod = ''GET'', urlPath = ''/api/v1/users'',
      reqHeader = [''Authorization'' \<mapsto> ''Bearer tok'']\<rparr>
   = (\<lparr>claimsValue = Some [''sub'' \<mapsto> VString ''u1'', ''iat'' \<mapsto> VFloat64 1000]\<rparr>, None)
   \<and> JWT_Process (token_lib ''RS256'') one_key_config \<lparr>claimsValue = None\<rparr>
     \<lparr>reqMethod = ''GET'', urlPath = ''/api/v1/users'',
      reqHeader = [''Authorization'' \<mapsto> ''Bearer tok'']\<rparr>
   = (\<lparr>claimsValue = Some [''sub'' \<mapsto> VString ''u1'', ''iat'' \<mapsto> VFloat64 1000]\<rparr>, None)"
proof -
  let ?req = "\<lparr>reqMethod = ''GET'', urlPath = ''/api/v1/users'',
                reqHeader = [''Authorization'' \<mapsto> ''Bearer tok'']\<rparr>"
  let ?claims = "[''sub'' \<mapsto> VString ''u1'', ''iat'' \<mapsto> VFloat64 1000] :: int MapClaims"
  let ?ctx = "\<lparr>claimsValue = None\<rparr> :: int Context"
  have h1: "\<not> SkipValidation one_key_config"
    by (simp add: one_key_config_def)
  have h2: "reqHeader ?req ''Authorization'' = Some (''Bearer '' @ ''tok'')"
    by simp
  have h3: "libDecode (token_lib alg) ''tok''
              = Some ([''alg'' \<mapsto> VString alg, ''kid'' \<mapsto> VString ''key-1''], ?claims, ''sig'')"
    for alg
    by (simp add: token_lib_def)
  have k: "PublicKeys one_key_config ''key-1'' = Some ''pub-1''"
    and rc: "\<forall>c \<in> set (RequiredClaims one_key_config). ?claims c \<noteq> None"
    by (simp_all add: one_key_config_def)
  have vf: "libVerify (token_lib ''RS512'') (SigningMethodRSA ''RS512'') ''tok'' ''sig'' ''pub-1''"
    "libVerify (token_lib ''RS256'') (SigningMethodRSA ''RS256'') ''tok'' ''sig'' ''pub-1''"
    by (simp_all add: token_lib_def GetSigningMethod_def)
  have vl: "libValidate (token_lib alg) ?claims" for alg
    by (simp add: token_lib_def)
  have nr: "[''alg'' \<mapsto> VString ''HS256'', ''kid'' \<mapsto> VString ''key-1''] ''alg''
      \<notin> {Some (VString ''RS256'') :: int go_value option, Some (VString ''RS384''),
          Some (VString ''RS512'')}"
    by simp
  from JWT_Process_RSA_family [OF h1 h2 h3, of "''HS256''" ?ctx, THEN conjunct1] nr
  obtain msg where m: "JWT_Process (token_lib ''HS256'') one_key_config ?ctx ?req
      = (?ctx, Some (GatewayErr (NewUnauthorizedError msg)))"
    by blast
  have "JWT_Process (token_lib ''HS256'') one_key_config ?ctx ?req
      = (?ctx, Some (GatewayErr (NewUnauthorizedError ''invalid token: token error'')))"
    by (simp add: JWT_Process_def Header_Get_def TrimPrefix_def token_lib_def one_key_config_def
        jwt_Parse_def GetSigningMethod_def keyFunc_def)
  with m have first: "JWT_Process (token_lib ''HS256'') one_key_config ?ctx ?req
      = (?ctx, Some (GatewayErr (NewUnauthorizedError ''invalid token: token error'')))"
    by simp
  have second: "JWT_Process (token_lib ''RS512'') one_key_config ?ctx ?req
      = (\<lparr>claimsValue = Some ?claims\<rparr>, None)"
    using JWT_Process_RSA_family [OF h1 h2 h3, of "''RS512''" ?ctx "''RS512''" "''key-1''"
        "''pub-1''"] k rc vf vl
    by simp
  have third: "JWT_Process (token_lib ''RS256'') one_key_config ?ctx ?req
      = (\<lparr>claimsValue = Some ?claims\<rparr>, None)"
    using JWT_Process_RSA_family [OF h1 h2 h3, of "''RS256''" ?ctx "''RS256''" "''key-1''"
        "''pub-1''"] k rc vf vl
    by simp
  from first second third show ?thesis by simp
qed

subsection \<open>Routing\<close>

lemma childrenOfType_empty [simp]: "childrenOfType (Node ty s Map.empty r p) t = {}"
  by (simp add: childrenOfType_def)

lemma childrenOfType_upd:
  "m k = None \<Longrightarrow>
   childrenOfType (Node ty s (m(k \<mapsto> c)) r p) t
     = (if nodeType c = t then {c} else {}) \<union> childrenOfType (Node ty s m r p) t"
  by (auto simp: childrenOfType_def)

lemma route_at_newNode [simp]: "route_at (newNode s) ks = None"
  by (cases ks) (simp_all add: newNode_def)

lemma addPath_fst:
  "fst (addPath n segs r) =
     (case route_at n segs of
        Some _ \<Rightarrow> Some (PlainErr (''route already exists for path: '' @ Path r))
      | None \<Rightarrow> None)"
proof (induction segs arbitrary: n)
  case Nil
  then show ?case by (simp split: option.splits)
next
  case (Cons s segs)
  then show ?case by (simp add: Let_def split: option.splits)
qed

lemma route_at_addPath:
  "route_at (snd (addPath n p r)) q =
     (if q = p \<and> route_at n p = None then Some r else route_at n q)"
proof (induction p arbitrary: n q)
  case Nil
  then show ?case by (cases q) (auto split: option.splits)
next
  case (Cons s ss)
  show ?case
  proof (cases q)
    case Nil
    then show ?thesis by (simp add: Let_def)
  next
    case (Cons k ks)
    then show ?thesis
      using Cons.IH by (auto simp: Let_def split: option.splits)
  qed
qed

lemma addPath_commute:
  "p1 \<noteq> p2 \<Longrightarrow>
   snd (addPath (snd (addPath n p1 r1)) p2 r2) = snd (addPath (snd (addPath n p2 r2)) p1 r1)"
proof (induction p1 arbitrary: n p2)
  case Nil
  then obtain s ss where "p2 = s # ss" by (cases p2) auto
  then show ?case by (simp add: Let_def split: option.splits)
next
  case (Cons s1 ss1)
  show ?case
  proof (cases p2)
    case Nil
    then show ?thesis by (simp add: Let_def split: option.splits)
  next
    case (Cons s2 ss2)
    show ?thesis
    proof (cases "s1 = s2")
      case True
      with Cons Cons.prems have "ss1 \<noteq> ss2" by simp
      from Cons.IH [OF this] True Cons show ?thesis
        by (simp add: Let_def)
    next
      case False
      with Cons show ?thesis
        by (simp add: Let_def fun_upd_twist)
    qed
  qed
qed


lemma added_commute:
  "SplitPath (Path r1) \<noteq> SplitPath (Path r2) \<Longrightarrow> added r1 (added r2 R) = added r2 (added r1 R)"
  by (simp add: added_def AddRoute_def Let_def addPath_commute)

lemma AddRoute_ok:
  assumes "Path rt \<noteq> []" and "route_at (root R) (SplitPath (Path rt)) = None"
  shows "AddRoute R rt = (None, added rt R)"
  using assms by (simp add: added_def AddRoute_def Let_def addPath_fst prod_eq_iff)

lemma route_at_added:
  "Path rt \<noteq> [] \<Longrightarrow> q \<noteq> SplitPath (Path rt) \<Longrightarrow> route_at (root (added rt R)) q = route_at (root R) q"
  by (simp add: added_def AddRoute_def Let_def route_at_addPath)

lemma AddRoutes_ok:
  assumes "distinct (map (\<lambda>r. SplitPath (Path r)) rs)"
    and "\<forall>r \<in> set rs. Path r \<noteq> []"
    and "\<forall>r \<in> set rs. route_at (root R) (SplitPath (Path r)) = None"
  shows "AddRoutes R rs = (None, fold added rs R)"
  using assms
proof (induction rs arbitrary: R)
  case Nil
  then show ?case by simp
next
  case (Cons rt rs)
  have ok: "AddRoute R rt = (None, added rt R)"
    using Cons.prems by (simp add: AddRoute_ok)
  have "\<forall>r \<in> set rs. route_at (root (added rt R)) (SplitPath (Path r)) = None"
  proof
    fix r assume r: "r \<in> set rs"
    with Cons.prems have "SplitPath (Path r) \<noteq> SplitPath (Path rt)"
      by (metis (no_types, lifting) distinct.simps(2) image_eqI list.simps(9) set_map)
    with Cons.prems r show "route_at (root (added rt R)) (SplitPath (Path r)) = None"
      by (simp add: route_at_added)
  qed
  with Cons.IH [of "added rt R"] Cons.prems ok show ?case by simp
qed

lemma fold_added_permute:
  assumes "mset rs' = mset rs" and "distinct (map (\<lambda>r. SplitPath (Path r)) rs)"
  shows "fold added rs' R = fold added rs R"
proof -
  have "\<And>x y. x \<in> set rs' \<Longrightarrow> y \<in> set rs' \<Longrightarrow> added x \<circ> added y = added y \<circ> added x"
  proof -
    fix x y assume "x \<in> set rs'" "y \<in> set rs'"
    then have xy: "x \<in> set rs" "y \<in> set rs"
      using assms(1) by (metis mset_eq_setD)+
    show "added x \<circ> added y = added y \<circ> added x"
    proof (cases "x = y")
      case True
      then show ?thesis by simp
    next
      case False
      with xy assms(2) have "SplitPath (Path x) \<noteq> SplitPath (Path y)"
        by (auto simp: distinct_map inj_on_def)
      then show ?thesis by (auto simp: fun_eq_iff added_commute)
    qed
  qed
  from fold_multiset_equiv [OF this assms(1)] show ?thesis by simp
qed

text \<open>
  The order of insertion does not matter: routes with non-empty, pairwise different path
  templates (as segment lists) are all inserted successfully into a new router in any order,
  and every order builds the same trie, hence the same set of possible results of \<open>Match\<close>.
\<close>

lemma AddRoutes_order_independent:
  assumes "mset rs' = mset rs"
    and "distinct (map (\<lambda>r. SplitPath (Path r)) rs)"
    and "\<forall>r \<in> set rs. Path r \<noteq> []"
  shows "AddRoutes NewRouter rs' = AddRoutes NewRouter rs
       \<and> fst (AddRoutes NewRouter rs) = None
       \<and> Match (snd (AddRoutes NewRouter rs')) m p = Match (snd (AddRoutes NewRouter rs)) m p"
proof -
  have new: "\<forall>r \<in> set xs. route_at (root NewRouter) (SplitPath (Path r)) = None" for xs
    by (simp add: NewRouter_def)
  have a: "AddRoutes NewRouter rs = (None, fold added rs NewRouter)"
    using assms(2,3) new by (rule AddRoutes_ok)
  have d': "distinct (map (\<lambda>r. SplitPath (Path r)) rs')"
    using assms(1,2) by (metis mset_map mset_eq_imp_distinct_iff)
  have s': "\<forall>r \<in> set rs'. Path r \<noteq> []"
    using assms(1,3) by (metis mset_eq_setD)
  have b: "AddRoutes NewRouter rs' = (None, fold added rs' NewRouter)"
    using d' s' new by (rule AddRoutes_ok)
  have c: "fold added rs' NewRouter = fold added rs NewRouter"
    using assms(1,2) by (rule fold_added_permute)
  show ?thesis
    using a b c by simp
qed

lemma SplitPath_u_a_x: "SplitPath ''/u/:a/x'' = [''u'', '':a'', ''x'']"
  by (simp add: SplitPath_def Trim_def)

lemma SplitPath_u_b_y: "SplitPath ''/u/:b/y'' = [''u'', '':b'', ''y'']"
  by (simp add: SplitPath_def Trim_def)

lemma SplitPath_u_1_x: "SplitPath ''/u/1/x'' = [''u'', ''1'', ''x'']"
  by (simp add: SplitPath_def Trim_def)

lemma two_params_trie:
  "AddRoutes NewRouter [route_to ''/u/:a/x'' [], route_to ''/u/:b/y'' []]
   = (None,
      \<lparr>root = Node staticNode []
         [''u'' \<mapsto> Node staticNode ''u''
            ['':a'' \<mapsto> Node paramNode '':a''
                         [''x'' \<mapsto> Node staticNode ''x'' Map.empty
                                     (Some (route_to ''/u/:a/x'' [])) []]
                         None ''a'',
             '':b'' \<mapsto> Node paramNode '':b''
                         [''y'' \<mapsto> Node staticNode ''y'' Map.empty
                                     (Some (route_to ''/u/:b/y'' [])) []]
                         None ''b'']
            None []]
         None []\<rparr>)"
  by (simp add: AddRoute_def NewRouter_def newNode_def HasPrefix_def TrimPrefix_def Let_def
      route_to_def SplitPath_u_a_x SplitPath_u_b_y)

text \<open>
  C6 (the code at the failing input). With the routes \<^verbatim>\<open>/u/:a/x\<close> and \<^verbatim>\<open>/u/:b/y\<close>
  inserted (both insertions succeed), the node for \<^verbatim>\<open>u\<close> has two parameter children, and
  the lookup of \<^verbatim>\<open>GET /u/1/x\<close> on this one trie has two possible results, depending on which
  parameter child the iteration over the children map meets first: the route \<^verbatim>\<open>/u/:a/x\<close>
  with \<^verbatim>\<open>a = 1\<close>, or "no route found". The lookup is not a function of the routes, the
  method and the path.
\<close>

theorem Match_two_param_children_two_results:
  "fst (AddRoutes NewRouter [route_to ''/u/:a/x'' [], route_to ''/u/:b/y'' []]) = None
   \<and> Match (snd (AddRoutes NewRouter [route_to ''/u/:a/x'' [], route_to ''/u/:b/y'' []]))
       ''GET'' ''/u/1/x''
     = {Inr \<lparr>matchRoute = route_to ''/u/:a/x'' [], Params = [''a'' \<mapsto> ''1'']\<rparr>,
        Inl (GatewayErr (NewNotFoundError ''no route found for path: /u/1/x''))}
   \<and> Inr \<lparr>matchRoute = route_to ''/u/:a/x'' [], Params = [''a'' \<mapsto> ''1'']\<rparr>
     \<noteq> (Inl (GatewayErr (NewNotFoundError ''no route found for path: /u/1/x''))
          :: go_error + MatchResult)"
  unfolding two_params_trie
  by (auto simp: Match_def SplitPath_u_1_x findMatchingChild_def getChild_def
      childrenOfType_upd HasMethod_def route_to_def)








end
